theory Spec2Isabelle
  imports Main
begin

section \<open>The RackHD machine driver (rackhd.go)\<close>

text \<open>
  A shallow embedding of the driver in \<^verbatim>\<open>src/rackhd.go\<close>. Every method has a pointer
  receiver \<^verbatim>\<open>d *Driver\<close>, so each method of the model takes the driver and returns
  the driver it leaves behind next to its Go result. A Go \<^verbatim>\<open>error\<close> result is an
  \<open>error option\<close>, \<open>None\<close> being \<^verbatim>\<open>nil\<close>; a multiple return value is a tuple.
  Log output (\<^verbatim>\<open>log.Debugf\<close>, \<^verbatim>\<open>log.Infof\<close>) is not part of the model, except that
  a type assertion evaluated for a log argument can still panic.
\<close>

subsection \<open>Data model\<close>

text \<open>An error is represented by its message, the text \<^verbatim>\<open>err.Error()\<close> gives.\<close>

type_synonym error = string

text \<open>
  The fields of \<^verbatim>\<open>drivers.BaseDriver\<close> (libmachine) that the driver touches. The
  driver embeds a pointer to it; the model keeps the embedded value and assumes the
  pointer is not nil, as \<^verbatim>\<open>NewDriver\<close> establishes.
\<close>

record BaseDriver =
  IPAddress :: string
  MachineName :: string
  SSHUser :: string
  SSHPort :: int
  SSHKeyPath :: string
  StorePath :: string

text \<open>
  The API client built by \<^verbatim>\<open>getClient\<close> is determined by the three arguments of
  \<^verbatim>\<open>httptransport.New\<close>.
\<close>

record Monorail =
  Host :: string
  BasePath :: string
  Schemes :: "string list"

text \<open>
  \<^verbatim>\<open>type Driver struct\<close>. Its own fields \<^verbatim>\<open>SSHUser\<close> and \<^verbatim>\<open>SSHPort\<close> shadow the
  promoted fields of the embedded base driver: \<^verbatim>\<open>d.SSHUser\<close> and \<^verbatim>\<open>d.SSHPort\<close> are
  the fields declared here, \<^verbatim>\<open>d.IPAddress\<close> and \<^verbatim>\<open>d.MachineName\<close> are the base
  driver's. Go's \<^verbatim>\<open>int\<close> is modelled by \<open>int\<close>: the port is only compared and
  printed, never computed with.
\<close>

record Driver =
  Base :: BaseDriver
  Endpoint :: string
  NodeID :: string
  SSHUser :: string
  SSHPassword :: string
  SSHPort :: int
  SSHKey :: string
  Transport :: string
  client :: "Monorail option"

definition defaultEndpoint :: string where
  "defaultEndpoint = ''localhost:8080''"

definition defaultTransport :: string where
  "defaultTransport = ''http''"

definition defaultSSHUser :: string where
  "defaultSSHUser = ''root''"

definition defaultSSHPassword :: string where
  "defaultSSHPassword = ''root''"

definition defaultSSHPort :: int where
  "defaultSSHPort = 22"

text \<open>
  \<^verbatim>\<open>NewDriver\<close>: the fields not named in the composite literal have their zero
  value. The default SSH user and port go to the base driver, not to the
  driver's own fields of the same name.
\<close>

definition NewDriver :: "string \<Rightarrow> string \<Rightarrow> Driver" where
  "NewDriver hostName storePath =
     \<lparr> Base = \<lparr> IPAddress = '''', MachineName = hostName,
                 BaseDriver.SSHUser = defaultSSHUser, BaseDriver.SSHPort = defaultSSHPort,
                 SSHKeyPath = '''', StorePath = storePath \<rparr>,
       Endpoint = defaultEndpoint,
       NodeID = '''',
       SSHUser = '''',
       SSHPassword = defaultSSHPassword,
       SSHPort = 0,
       SSHKey = '''',
       Transport = defaultTransport,
       client = None \<rparr>"

text \<open>
  \<^verbatim>\<open>drivers.DriverOptions\<close>: the two accessors of the flag set that the driver
  calls.
\<close>

record DriverOptions =
  String_flag :: "string \<Rightarrow> string"
  Int_flag :: "string \<Rightarrow> int"

subsection \<open>Configuration\<close>

definition SetConfigFromFlags :: "DriverOptions \<Rightarrow> Driver \<Rightarrow> error option \<times> Driver" where
  "SetConfigFromFlags flags d =
     (let d1 = d\<lparr>Endpoint := String_flag flags ''rackhd-endpoint''\<rparr>;
          d2 = d1\<lparr>NodeID := String_flag flags ''rackhd-node-id''\<rparr>
      in if NodeID d2 = ''''
         then (Some ''rackhd driver requires the --rackhd-node-id option'', d2)
         else
           let d3 = d2\<lparr>SSHUser := String_flag flags ''rackhd-ssh-user''\<rparr>;
               d4 = d3\<lparr>SSHPassword := String_flag flags ''rackhd-ssh-password''\<rparr>;
               d5 = d4\<lparr>SSHPort := Int_flag flags ''rackhd-ssh-port''\<rparr>;
               d6 = (if SSHPort d5 = 443
                     then d5\<lparr>Transport := ''https''\<rparr>
                     else d5\<lparr>Transport := String_flag flags ''rackhd-transport''\<rparr>)
           in (None, d6))"

subsection \<open>Library functions the driver calls\<close>

text \<open>
  \<^verbatim>\<open>strconv.Itoa\<close>, which is also what the verb \<^verbatim>\<open>%d\<close> of \<^verbatim>\<open>fmt.Sprintf\<close> prints:
  the decimal digits, most significant first, after a minus sign for a negative
  number.
\<close>

definition digit_char :: "nat \<Rightarrow> char" where
  "digit_char n = ''0123456789'' ! (n mod 10)"

function nat_digits :: "nat \<Rightarrow> string" where
  "nat_digits n =
     (if n < 10 then [digit_char n] else nat_digits (n div 10) @ [digit_char n])"
  by pat_completeness auto
termination
  by (relation "measure (\<lambda>n. n)") auto

declare nat_digits.simps [simp del]

definition Itoa :: "int \<Rightarrow> string" where
  "Itoa i = (if i < 0 then CHR ''-'' # nat_digits (nat (- i)) else nat_digits (nat i))"

text \<open>
  \<^verbatim>\<open>strings.TrimSpace\<close> on the bytes of the string, which Go reads as UTF-8: every
  leading and every trailing rune for which \<^verbatim>\<open>unicode.IsSpace\<close> holds is removed.
  These runes are the six of ASCII (tab, line feed, vertical tab, form feed,
  carriage return, space), U+0085, U+00A0, U+1680, U+2000 to U+200A, U+2028,
  U+2029, U+202F, U+205F and U+3000; \<open>space_runes\<close> lists their encodings. A byte
  sequence that is not valid UTF-8 decodes to the replacement rune, which is no
  white space, so trimming stops there. From the end Go steps back to the nearest
  byte that starts a rune and decodes from there, which finds a trailing white
  space rune exactly when its encoding is a suffix of the string.
\<close>

definition space_runes :: "string list" where
  "space_runes =
     [[CHR 0x09], [CHR 0x0A], [CHR 0x0B], [CHR 0x0C], [CHR 0x0D], [CHR 0x20],
      [CHR 0xC2, CHR 0x85], [CHR 0xC2, CHR 0xA0],
      [CHR 0xE1, CHR 0x9A, CHR 0x80],
      [CHR 0xE2, CHR 0x80, CHR 0x80], [CHR 0xE2, CHR 0x80, CHR 0x81],
      [CHR 0xE2, CHR 0x80, CHR 0x82], [CHR 0xE2, CHR 0x80, CHR 0x83],
      [CHR 0xE2, CHR 0x80, CHR 0x84], [CHR 0xE2, CHR 0x80, CHR 0x85],
      [CHR 0xE2, CHR 0x80, CHR 0x86], [CHR 0xE2, CHR 0x80, CHR 0x87],
      [CHR 0xE2, CHR 0x80, CHR 0x88], [CHR 0xE2, CHR 0x80, CHR 0x89],
      [CHR 0xE2, CHR 0x80, CHR 0x8A],
      [CHR 0xE2, CHR 0x80, CHR 0xA8], [CHR 0xE2, CHR 0x80, CHR 0xA9],
      [CHR 0xE2, CHR 0x80, CHR 0xAF],
      [CHR 0xE2, CHR 0x81, CHR 0x9F],
      [CHR 0xE3, CHR 0x80, CHR 0x80]]"

text \<open>
  The number of bytes of the first of the given byte sequences that the string
  starts with, 0 if it starts with none of them.
\<close>

fun rune_width :: "string list \<Rightarrow> string \<Rightarrow> nat" where
  "rune_width [] s = 0"
| "rune_width (e # es) s =
     (if e \<noteq> [] \<and> take (length e) s = e then length e else rune_width es s)"

function trim_left :: "string list \<Rightarrow> string \<Rightarrow> string" where
  "trim_left es s =
     (if rune_width es s = 0 then s else trim_left es (drop (rune_width es s) s))"
  by pat_completeness auto
termination
proof (relation "measure (\<lambda>(es, s). length s)")
  show "wf (measure (\<lambda>(es, s). length s))" by simp
next
  fix es :: "string list" and s :: string
  assume pos: "rune_width es s \<noteq> 0"
  have "rune_width es s \<noteq> 0 \<Longrightarrow> s \<noteq> []"
    by (induction es) (auto split: if_splits)
  with pos have "s \<noteq> []" by simp
  with pos show "((es, drop (rune_width es s) s), (es, s)) \<in> measure (\<lambda>(es, s). length s)"
    by simp
qed

declare trim_left.simps [simp del]

definition TrimSpace :: "string \<Rightarrow> string" where
  "TrimSpace s = rev (trim_left (map rev space_runes) (rev (trim_left space_runes s)))"

text \<open>The verb \<^verbatim>\<open>%s\<close> applied to an \<^verbatim>\<open>error\<close> operand, which may be nil.\<close>

fun verb_s :: "error option \<Rightarrow> string" where
  "verb_s None = ''%!s(<nil>)''"
| "verb_s (Some e) = e"

subsection \<open>The outside world\<close>

text \<open>
  A value of type \<^verbatim>\<open>interface{}\<close> as the driver looks at it: it is a string, a
  \<^verbatim>\<open>map[string]interface{}\<close>, or something else. A map is given by its entries in
  the order in which \<^verbatim>\<open>range\<close> happens to visit them (the keys of a Go map are
  distinct, the order is not fixed).
\<close>

datatype iface =
  IString string
| IMap "(string \<times> iface) list"
| IOther

text \<open>
  Every call that leaves the process is recorded as an event, in the order of the
  calls: the inventory lookup, a TCP probe \<^verbatim>\<open>net.DialTimeout("tcp", addr, 25s)\<close>, the
  close of a probe's connection, key generation, the read of the public key file,
  and the four calls of an SSH command execution.
\<close>

datatype event =
  LookupsCall Monorail string
| TcpDial string
| ConnClose string
| KeyGen string
| FileRead string
| SshDial string string string
| SessionNew
| SessionRun string
| SessionClose

text \<open>
  The collaborators. What each call returns may depend on everything that has
  happened so far, so each takes the list of earlier events. For the calls that
  return only an error, \<open>None\<close> is success. \<^verbatim>\<open>filepath.Join\<close> is a function of its
  arguments alone; what it computes is not needed here, so it is a parameter.
\<close>

record world =
  GetLookups :: "event list \<Rightarrow> Monorail \<Rightarrow> string \<Rightarrow> error + iface list"
  DialTimeout :: "event list \<Rightarrow> string \<Rightarrow> error option"
  filepath_Join :: "string list \<Rightarrow> string"
  GenerateSSHKey :: "event list \<Rightarrow> string \<Rightarrow> error option"
  ReadFile :: "event list \<Rightarrow> string \<Rightarrow> error + string"
  ssh_Dial :: "event list \<Rightarrow> string \<Rightarrow> string \<Rightarrow> string \<Rightarrow> error option"
  NewSession :: "event list \<Rightarrow> error option"
  Run :: "event list \<Rightarrow> string \<Rightarrow> error option"

text \<open>A call either returns or panics.\<close>

datatype 'a outcome = Panics | Returns 'a

text \<open>Observations of a list of events.\<close>

fun dial_of :: "event \<Rightarrow> string list" where
  "dial_of (TcpDial a) = [a]"
| "dial_of _ = []"

fun close_of :: "event \<Rightarrow> string list" where
  "close_of (ConnClose a) = [a]"
| "close_of _ = []"

fun run_of :: "event \<Rightarrow> string list" where
  "run_of (SessionRun c) = [c]"
| "run_of _ = []"

definition dials :: "event list \<Rightarrow> string list" where
  "dials t = concat (map dial_of t)"

definition closes :: "event list \<Rightarrow> string list" where
  "closes t = concat (map close_of t)"

definition ran :: "event list \<Rightarrow> string list" where
  "ran t = concat (map run_of t)"

subsection \<open>Helpers of the driver\<close>

definition getClient :: "Driver \<Rightarrow> Monorail \<times> Driver" where
  "getClient d =
     (case client d of
        None \<Rightarrow>
          (let transport = \<lparr> Host = Endpoint d, BasePath = ''/api/1.1'', Schemes = [Transport d] \<rparr>
           in (transport, d\<lparr>client := Some transport\<rparr>))
      | Some c \<Rightarrow> (c, d))"

text \<open>
  Two methods of the base driver (libmachine) that \<^verbatim>\<open>createSSHKey\<close> reaches.
  \<^verbatim>\<open>ResolveStorePath(file)\<close> is
  \<^verbatim>\<open>filepath.Join(d.StorePath, "machines", d.MachineName, file)\<close>.
  \<^verbatim>\<open>GetSSHKeyPath\<close> assigns \<^verbatim>\<open>d.SSHKeyPath = d.ResolveStorePath("id_rsa")\<close> when the
  field is empty and returns the field: it changes the base driver.
\<close>

definition ResolveStorePath :: "world \<Rightarrow> BaseDriver \<Rightarrow> string \<Rightarrow> string" where
  "ResolveStorePath w b file = filepath_Join w [StorePath b, ''machines'', MachineName b, file]"

definition GetSSHKeyPath :: "world \<Rightarrow> Driver \<Rightarrow> string \<times> Driver" where
  "GetSSHKeyPath w d =
     (let d' = (if SSHKeyPath (Base d) = ''''
                then d\<lparr>Base := (Base d)\<lparr>SSHKeyPath := ResolveStorePath w (Base d) ''id_rsa''\<rparr>\<rparr>
                else d)
      in (SSHKeyPath (Base d'), d'))"

definition publicSSHKeyPath :: "world \<Rightarrow> Driver \<Rightarrow> string \<times> Driver" where
  "publicSSHKeyPath w d =
     (case GetSSHKeyPath w d of (path, d') \<Rightarrow> (path @ ''.pub'', d'))"

text \<open>
  \<^verbatim>\<open>createSSHKey\<close>. Both calls of \<^verbatim>\<open>GetSSHKeyPath\<close> act on the driver, so the driver
  is returned with the result, also when an error is returned.
\<close>

definition createSSHKey ::
  "world \<Rightarrow> Driver \<Rightarrow> event list \<Rightarrow> (string \<times> error option) \<times> Driver \<times> event list" where
  "createSSHKey w d t =
     (case GetSSHKeyPath w d of (path, d1) \<Rightarrow>
      let t1 = t @ [KeyGen path] in
      (case GenerateSSHKey w t path of
         Some err \<Rightarrow> (('''', Some err), d1, t1)
       | None \<Rightarrow>
           (case publicSSHKeyPath w d1 of (pub, d2) \<Rightarrow>
            let t2 = t1 @ [FileRead pub] in
            (case ReadFile w t1 pub of
               Inl err \<Rightarrow> (('''', Some err), d2, t2)
             | Inr publicKey \<Rightarrow> ((publicKey, None), d2, t2)))))"

text \<open>
  \<^verbatim>\<open>executeSSHCommand\<close>: dial with user and password, open a session, run the
  command. The deferred \<^verbatim>\<open>session.Close()\<close> runs on both returns that follow the
  creation of the session.
\<close>

definition executeSSHCommand ::
  "world \<Rightarrow> string \<Rightarrow> Driver \<Rightarrow> event list \<Rightarrow> error option \<times> event list" where
  "executeSSHCommand w command d t =
     (let addr = IPAddress (Base d) @ '':'' @ Itoa (SSHPort d);
          t1 = t @ [SshDial addr (SSHUser d) (SSHPassword d)] in
      case ssh_Dial w t addr (SSHUser d) (SSHPassword d) of
        Some err \<Rightarrow> (Some err, t1)
      | None \<Rightarrow>
          (let t2 = t1 @ [SessionNew] in
           case NewSession w t1 of
             Some err \<Rightarrow> (Some err, t2)
           | None \<Rightarrow>
               (let t3 = t2 @ [SessionRun command] in
                case Run w t2 command of
                  Some err \<Rightarrow> (Some err, t3 @ [SessionClose])
                | None \<Rightarrow> (None, t3 @ [SessionClose]))))"

subsection \<open>Create\<close>

text \<open>
  The inner loop of lines 179 to 184 over the entries of one record: the value
  under the key \<^verbatim>\<open>ipAddress\<close> is appended; the unchecked type assertion
  \<^verbatim>\<open>val.(string)\<close> panics on a value that is not a string. \<open>None\<close> is the panic.
\<close>

fun grab_record :: "(string \<times> iface) list \<Rightarrow> string list \<Rightarrow> string list option" where
  "grab_record [] ipAddSlice = Some ipAddSlice"
| "grab_record ((key, val) # rest) ipAddSlice =
     (if key = ''ipAddress''
      then (case val of
              IString s \<Rightarrow> grab_record rest (ipAddSlice @ [s])
            | _ \<Rightarrow> None)
      else grab_record rest ipAddSlice)"

text \<open>
  The outer loop of lines 177 to 186 over the payload: the checked type assertion
  skips every element that is not a map.
\<close>

fun grab_ips :: "iface list \<Rightarrow> string list \<Rightarrow> string list option" where
  "grab_ips [] ipAddSlice = Some ipAddSlice"
| "grab_ips (v # rest) ipAddSlice =
     (case v of
        IMap rec \<Rightarrow>
          (case grab_record rec ipAddSlice of
             None \<Rightarrow> None
           | Some ipAddSlice' \<Rightarrow> grab_ips rest ipAddSlice')
      | _ \<Rightarrow> grab_ips rest ipAddSlice)"

text \<open>
  The probe loop of lines 194 to 206: on the first successful dial the address is
  stored, the connection is closed and the loop is left.
\<close>

fun probe :: "world \<Rightarrow> string list \<Rightarrow> Driver \<Rightarrow> event list \<Rightarrow> Driver \<times> event list" where
  "probe w [] d t = (d, t)"
| "probe w (ipAddy # rest) d t =
     (let ipPort = ipAddy @ '':'' @ Itoa (SSHPort d) in
      case DialTimeout w t ipPort of
        Some err \<Rightarrow> probe w rest d (t @ [TcpDial ipPort])
      | None \<Rightarrow>
          (d\<lparr>Base := (Base d)\<lparr>IPAddress := ipAddy\<rparr>\<rparr>,
           t @ [TcpDial ipPort, ConnClose ipPort]))"

text \<open>The four command lines of lines 223 to 235.\<close>

abbreviation mkdir_command :: "Driver \<Rightarrow> string" where
  "mkdir_command d \<equiv> ''mkdir -p /home/'' @ SSHUser d @ ''/.ssh''"

abbreviation write_command :: "Driver \<Rightarrow> string" where
  "write_command d \<equiv>
     ''echo '' @ [CHR 0x27] @ SSHKey d @ [CHR 0x27] @ '' > /home/'' @ SSHUser d @ ''/.ssh/authorized_keys''"

abbreviation chmod_dir_command :: "Driver \<Rightarrow> string" where
  "chmod_dir_command d \<equiv> ''chmod 700 /home/'' @ SSHUser d @ ''/.ssh''"

abbreviation chmod_file_command :: "Driver \<Rightarrow> string" where
  "chmod_file_command d \<equiv> ''chmod 600 /home/'' @ SSHUser d @ ''/.ssh/authorized_keys''"

text \<open>
  \<^verbatim>\<open>Create\<close>. In both \<^verbatim>\<open>fmt.Errorf\<close> calls the operand \<^verbatim>\<open>err\<close> is the variable of
  line 168, which is nil there (the \<^verbatim>\<open>err\<close> of the dial is local to the loop body).
\<close>

definition Create ::
  "world \<Rightarrow> Driver \<Rightarrow> event list \<Rightarrow> error option outcome \<times> Driver \<times> event list" where
  "Create w d t =
     (case getClient d of (c, d1) \<Rightarrow>
      let t1 = t @ [LookupsCall c (NodeID d1)] in
      (case GetLookups w t c (NodeID d1) of
        Inl err \<Rightarrow> (Returns (Some err), d1, t1)
      | Inr Payload \<Rightarrow>
          (case grab_ips Payload [] of
             None \<Rightarrow> (Panics, d1, t1)
           | Some ipAddSlice \<Rightarrow>
               if length ipAddSlice \<le> 0
               then (Returns (Some (''No IP addresses are associated with the Node ID specified. Error: ''
                                     @ verb_s None)), d1, t1)
               else
                 (case probe w ipAddSlice d1 t1 of (d2, t2) \<Rightarrow>
                  if IPAddress (Base d2) = ''''
                  then (Returns (Some (''No IP addresses are accessible on this network to the Node ID specified. Error: ''
                                        @ verb_s None)), d2, t2)
                  else
                    (case createSSHKey w d2 t2 of
                       ((key, Some err), dk, t3) \<Rightarrow> (Returns (Some err), dk, t3)
                     | ((key, None), dk, t3) \<Rightarrow>
                         let d3 = dk\<lparr>SSHKey := TrimSpace key\<rparr> in
                         (case executeSSHCommand w (mkdir_command d3) d3 t3 of
                            (Some err, t4) \<Rightarrow> (Returns (Some err), d3, t4)
                          | (None, t4) \<Rightarrow>
                         (case executeSSHCommand w (write_command d3) d3 t4 of
                            (Some err, t5) \<Rightarrow> (Returns (Some err), d3, t5)
                          | (None, t5) \<Rightarrow>
                         (case executeSSHCommand w (chmod_dir_command d3) d3 t5 of
                            (Some err, t6) \<Rightarrow> (Returns (Some err), d3, t6)
                          | (None, t6) \<Rightarrow>
                         (case executeSSHCommand w (chmod_file_command d3) d3 t6 of
                            (Some err, t7) \<Rightarrow> (Returns (Some err), d3, t7)
                          | (None, t7) \<Rightarrow> (Returns None, d3, t7))))))))))"

subsection \<open>Queries and lifecycle operations\<close>

text \<open>\<^verbatim>\<open>state.State\<close> of libmachine.\<close>

datatype State =
  None_State | Running | Paused | Saved | Stopped | Stopping | Starting | Error_State | Timeout

definition GetIP :: "Driver \<Rightarrow> (string \<times> error option) \<times> Driver" where
  "GetIP d =
     (if IPAddress (Base d) = ''''
      then (('''', Some ''IP address is not set''), d)
      else ((IPAddress (Base d), None), d))"

definition GetURL :: "Driver \<Rightarrow> (string \<times> error option) \<times> Driver" where
  "GetURL d =
     (case GetIP d of
        ((ip, Some err), d') \<Rightarrow> (('''', Some err), d')
      | ((ip, None), d') \<Rightarrow> ((''tcp://'' @ ip @ '':2376'', None), d'))"

definition GetSSHHostname :: "Driver \<Rightarrow> (string \<times> error option) \<times> Driver" where
  "GetSSHHostname d = GetIP d"

definition GetSSHUsername :: "Driver \<Rightarrow> string \<times> Driver" where
  "GetSSHUsername d =
     (let d' = (if SSHUser d = '''' then d\<lparr>SSHUser := ''root''\<rparr> else d)
      in (SSHUser d', d'))"

definition GetState :: "Driver \<Rightarrow> (State \<times> error option) \<times> Driver" where
  "GetState d = ((Running, None), d)"

definition Start :: "Driver \<Rightarrow> error option \<times> Driver" where
  "Start d = (None, d)"

definition Stop :: "Driver \<Rightarrow> error option \<times> Driver" where
  "Stop d = (None, d)"

definition Remove :: "Driver \<Rightarrow> error option \<times> Driver" where
  "Remove d = (None, d)"

definition Restart :: "Driver \<Rightarrow> error option \<times> Driver" where
  "Restart d = (None, d)"

definition Kill :: "Driver \<Rightarrow> error option \<times> Driver" where
  "Kill d = (None, d)"

subsection \<open>The address values of a lookup response\<close>

text \<open>
  What the specification calls the \<^verbatim>\<open>ipAddress\<close> values found in the returned
  records: for each record of the payload in turn, the values of its entries whose
  key is \<^verbatim>\<open>ipAddress\<close>, nothing dropped and nothing merged. This definition follows
  the specification's words; \<open>grab_ips\<close> above is the code.
\<close>

fun ip_values_of :: "iface \<Rightarrow> iface list" where
  "ip_values_of (IMap rec) = map snd (filter (\<lambda>kv. fst kv = ''ipAddress'') rec)"
| "ip_values_of _ = []"

definition ip_values :: "iface list \<Rightarrow> iface list" where
  "ip_values payload = concat (map ip_values_of payload)"

subsection \<open>Success and failure of a remote command\<close>

text \<open>
  What it means that a remote command succeeds or fails, said of the three calls
  an execution makes rather than of \<^verbatim>\<open>executeSSHCommand\<close>: the dial to
  \<^verbatim>\<open>ip:port\<close> with user and password, the new session, the run of the command
  line. \<open>command_calls\<close> are the calls of a complete execution, the close of the
  session last. The command succeeds in the history \<open>h\<close> if the three calls return
  nil, each in the history the calls before it have left; it fails with \<open>e\<close> if the
  first of them that returns an error returns \<open>e\<close>. \<open>stops_within\<close> says that a
  history ends in the middle or at the end of the command's execution begun in
  \<open>h\<close>: after the dial, after the new session, or after the four calls.
\<close>

definition ssh_address :: "Driver \<Rightarrow> string" where
  "ssh_address d = IPAddress (Base d) @ '':'' @ Itoa (SSHPort d)"

definition command_calls :: "Driver \<Rightarrow> string \<Rightarrow> event list" where
  "command_calls d c =
     [SshDial (ssh_address d) (SSHUser d) (SSHPassword d), SessionNew, SessionRun c, SessionClose]"

definition command_succeeds :: "world \<Rightarrow> Driver \<Rightarrow> event list \<Rightarrow> string \<Rightarrow> bool" where
  "command_succeeds w d h c \<longleftrightarrow>
     ssh_Dial w h (ssh_address d) (SSHUser d) (SSHPassword d) = None \<and>
     NewSession w (h @ take 1 (command_calls d c)) = None \<and>
     Run w (h @ take 2 (command_calls d c)) c = None"

definition command_fails :: "world \<Rightarrow> Driver \<Rightarrow> event list \<Rightarrow> string \<Rightarrow> error \<Rightarrow> bool" where
  "command_fails w d h c e \<longleftrightarrow>
     ssh_Dial w h (ssh_address d) (SSHUser d) (SSHPassword d) = Some e \<or>
     (ssh_Dial w h (ssh_address d) (SSHUser d) (SSHPassword d) = None \<and>
      NewSession w (h @ take 1 (command_calls d c)) = Some e) \<or>
     (ssh_Dial w h (ssh_address d) (SSHUser d) (SSHPassword d) = None \<and>
      NewSession w (h @ take 1 (command_calls d c)) = None \<and>
      Run w (h @ take 2 (command_calls d c)) c = Some e)"

definition stops_within :: "event list \<Rightarrow> event list \<Rightarrow> Driver \<Rightarrow> string \<Rightarrow> bool" where
  "stops_within t h d c \<longleftrightarrow>
     t = h @ take 1 (command_calls d c) \<or>
     t = h @ take 2 (command_calls d c) \<or>
     t = h @ command_calls d c"

subsection \<open>A concrete setting\<close>

text \<open>
  A driver configured for node \<^verbatim>\<open>node1\<close> with user \<^verbatim>\<open>root\<close> and port 22, and an
  inventory that knows three addresses for it, the second of which answers on the
  SSH port. Key generation and every remote command succeed. Path elements are
  joined with a slash.
\<close>

fun join_slash :: "string list \<Rightarrow> string" where
  "join_slash [] = ''''"
| "join_slash [x] = x"
| "join_slash (x # y # ys) = x @ ''/'' @ join_slash (y # ys)"

definition example_driver :: Driver where
  "example_driver =
     (NewDriver ''rack1'' ''/store'')\<lparr>NodeID := ''node1'', SSHUser := ''root'', SSHPort := 22\<rparr>"

definition example_payload :: "iface list" where
  "example_payload =
     [IMap [(''node'', IString ''node1''), (''ipAddress'', IString ''10.0.0.1'')],
      IOther,
      IMap [(''macAddress'', IString ''52:54:00:12:34:56'')],
      IMap [(''ipAddress'', IString ''10.0.0.2''), (''node'', IString ''node1'')],
      IMap [(''ipAddress'', IString ''10.0.0.3'')]]"

definition example_world :: world where
  "example_world =
     \<lparr> GetLookups = (\<lambda>h c q. Inr example_payload),
       DialTimeout = (\<lambda>h a. if a = ''10.0.0.2:22'' then None else Some ''i/o timeout''),
       filepath_Join = join_slash,
       GenerateSSHKey = (\<lambda>h p. None),
       ReadFile = (\<lambda>h p. Inr (''ssh-rsa AAAA root@rack1'' @ [CHR 0x0A])),
       ssh_Dial = (\<lambda>h a u p. None),
       NewSession = (\<lambda>h. None),
       Run = (\<lambda>h c. None) \<rparr>"

text \<open>The same setting with a record whose \<^verbatim>\<open>ipAddress\<close> is not a string.\<close>

definition world_bad_record :: world where
  "world_bad_record =
     example_world\<lparr>GetLookups := (\<lambda>h c q. Inr [IMap [(''ipAddress'', IOther)]])\<rparr>"

text \<open>The same setting with an inventory that knows no address.\<close>

definition world_no_address :: world where
  "world_no_address =
     example_world\<lparr>GetLookups :=
       (\<lambda>h c q. Inr [IMap [(''macAddress'', IString ''52:54:00:12:34:56'')], IOther])\<rparr>"

text \<open>The same setting with no address answering.\<close>

definition world_unreachable :: world where
  "world_unreachable = example_world\<lparr>DialTimeout := (\<lambda>h a. Some ''i/o timeout'')\<rparr>"

text \<open>A driver that already carries an address when \<^verbatim>\<open>Create\<close> is called.\<close>

definition stale_driver :: Driver where
  "stale_driver = example_driver\<lparr>Base := (Base example_driver)\<lparr>IPAddress := ''10.0.0.9''\<rparr>\<rparr>"

text \<open>
  The example driver and history as \<^verbatim>\<open>Create\<close> has them after the probe, after the
  generation of the key, and when it turns to the remote commands.
\<close>

definition resolved_driver :: Driver where
  "resolved_driver =
     example_driver
       \<lparr>Base := (Base example_driver)\<lparr>IPAddress := ''10.0.0.2''\<rparr>,
        client := Some \<lparr>Host = ''localhost:8080'', BasePath = ''/api/1.1'', Schemes = [''http'']\<rparr>\<rparr>"

definition resolved_history :: "event list" where
  "resolved_history =
     [LookupsCall \<lparr>Host = ''localhost:8080'', BasePath = ''/api/1.1'', Schemes = [''http'']\<rparr> ''node1'',
      TcpDial ''10.0.0.1:22'', TcpDial ''10.0.0.2:22'', ConnClose ''10.0.0.2:22'']"

definition keyed_driver :: Driver where
  "keyed_driver =
     resolved_driver
       \<lparr>Base := (Base resolved_driver)\<lparr>SSHKeyPath := ''/store/machines/rack1/id_rsa''\<rparr>\<rparr>"

definition keyed_history :: "event list" where
  "keyed_history =
     resolved_history
       @ [KeyGen ''/store/machines/rack1/id_rsa'', FileRead ''/store/machines/rack1/id_rsa.pub'']"

definition ready_driver :: Driver where
  "ready_driver = keyed_driver\<lparr>SSHKey := ''ssh-rsa AAAA root@rack1''\<rparr>"

text \<open>
  Two settings in which a remote command exits with the same status: in the first
  it is the \<^verbatim>\<open>mkdir\<close>, in the second the \<^verbatim>\<open>echo\<close> that writes the key.
\<close>

definition world_mkdir_fails :: world where
  "world_mkdir_fails =
     example_world\<lparr>Run := (\<lambda>h c. if take 5 c = ''mkdir''
                                then Some ''Process exited with status 1'' else None)\<rparr>"

definition world_write_fails :: world where
  "world_write_fails =
     example_world\<lparr>Run := (\<lambda>h c. if take 4 c = ''echo''
                                then Some ''Process exited with status 1'' else None)\<rparr>"

text \<open>A flag set with port 443 and transport \<^verbatim>\<open>http\<close>, and one without a node.\<close>

definition flags_443 :: DriverOptions where
  "flags_443 =
     \<lparr> String_flag = (\<lambda>k. if k = ''rackhd-endpoint'' then ''rackhd.local:443''
                           else if k = ''rackhd-node-id'' then ''node1''
                           else if k = ''rackhd-transport'' then ''http''
                           else ''root''),
       Int_flag = (\<lambda>k. 443) \<rparr>"

definition flags_no_node :: DriverOptions where
  "flags_no_node =
     \<lparr> String_flag = (\<lambda>k. if k = ''rackhd-endpoint'' then ''rackhd.local:9090''
                           else if k = ''rackhd-node-id'' then ''''
                           else if k = ''rackhd-transport'' then ''https''
                           else ''admin''),
       Int_flag = (\<lambda>k. 2222) \<rparr>"

section \<open>Properties of the driver's helpers\<close>

subsection \<open>Observations, the two loops, the steps of Create\<close>

lemma dials_simps [simp]:
  "dials [] = []" "dials (e # t) = dial_of e @ dials t" "dials (t @ u) = dials t @ dials u"
  by (simp_all add: dials_def)

lemma closes_simps [simp]:
  "closes [] = []" "closes (e # t) = close_of e @ closes t" "closes (t @ u) = closes t @ closes u"
  by (simp_all add: closes_def)

lemma ran_simps [simp]:
  "ran [] = []" "ran (e # t) = run_of e @ ran t" "ran (t @ u) = ran t @ ran u"
  by (simp_all add: ran_def)

lemma grab_record_strings:
  "\<forall>x \<in> set (ip_values_of (IMap rec)). \<exists>s. x = IString s \<Longrightarrow>
     \<exists>ips. grab_record rec acc = Some (acc @ ips) \<and> map IString ips = ip_values_of (IMap rec)"
proof (induction rec arbitrary: acc)
  case Nil
  then show ?case by simp
next
  case (Cons kv rec)
  obtain key val where kv: "kv = (key, val)" by (cases kv)
  show ?case
  proof (cases "key = ''ipAddress''")
    case False
    with Cons kv show ?thesis by simp
  next
    case True
    with Cons.prems kv obtain s where s: "val = IString s" by auto
    from Cons.prems have "\<forall>x \<in> set (ip_values_of (IMap rec)). \<exists>s. x = IString s" by auto
    from Cons.IH [OF this, of "acc @ [s]"] obtain ips where
      "grab_record rec (acc @ [s]) = Some ((acc @ [s]) @ ips)"
      "map IString ips = ip_values_of (IMap rec)" by blast
    with True kv s show ?thesis by (intro exI [of _ "s # ips"]) simp
  qed
qed

lemma grab_ips_strings:
  "\<forall>x \<in> set (ip_values payload). \<exists>s. x = IString s \<Longrightarrow>
     \<exists>ips. grab_ips payload acc = Some (acc @ ips) \<and> map IString ips = ip_values payload"
proof (induction payload arbitrary: acc)
  case Nil
  then show ?case by (simp add: ip_values_def)
next
  case (Cons v payload)
  from Cons.prems have rest: "\<forall>x \<in> set (ip_values payload). \<exists>s. x = IString s"
    by (auto simp: ip_values_def)
  show ?case
  proof (cases v)
    case (IMap rec)
    from Cons.prems IMap have "\<forall>x \<in> set (ip_values_of (IMap rec)). \<exists>s. x = IString s"
      by (auto simp: ip_values_def)
    from grab_record_strings [OF this, of acc] obtain ips1 where
      1: "grab_record rec acc = Some (acc @ ips1)" "map IString ips1 = ip_values_of (IMap rec)"
      by blast
    from Cons.IH [OF rest, of "acc @ ips1"] obtain ips2 where
      2: "grab_ips payload (acc @ ips1) = Some ((acc @ ips1) @ ips2)"
         "map IString ips2 = ip_values payload" by blast
    from IMap 1 2 show ?thesis
      by (intro exI [of _ "ips1 @ ips2"]) (simp add: ip_values_def)
  next
    case (IString s)
    with Cons.IH [OF rest, of acc] show ?thesis by (simp add: ip_values_def)
  next
    case IOther
    with Cons.IH [OF rest, of acc] show ?thesis by (simp add: ip_values_def)
  qed
qed

text \<open>The loops panic exactly when some \<^verbatim>\<open>ipAddress\<close> value is not a string.\<close>

lemma grab_record_None_iff:
  "grab_record rec acc = None \<longleftrightarrow> (\<exists>x \<in> set (ip_values_of (IMap rec)). \<forall>s. x \<noteq> IString s)"
proof (induction rec arbitrary: acc)
  case Nil
  show ?case by simp
next
  case (Cons kv rec)
  obtain key val where kv: "kv = (key, val)" by (cases kv)
  show ?case
  proof (cases "key = ''ipAddress''")
    case False
    with kv Cons.IH [of acc] show ?thesis by simp
  next
    case True
    show ?thesis
    proof (cases val)
      case (IString s)
      with True kv Cons.IH [of "acc @ [s]"] show ?thesis by simp
    qed (use True kv in simp_all)
  qed
qed

lemma grab_ips_None_iff:
  "grab_ips payload acc = None \<longleftrightarrow> (\<exists>x \<in> set (ip_values payload). \<forall>s. x \<noteq> IString s)"
proof (induction payload arbitrary: acc)
  case Nil
  show ?case by (simp add: ip_values_def)
next
  case (Cons v payload)
  have vs: "ip_values (u # payload) = ip_values_of u @ ip_values payload" for u
    by (simp add: ip_values_def)
  show ?case
  proof (cases v)
    case (IMap rec)
    show ?thesis
    proof (cases "grab_record rec acc")
      case None
      with IMap show ?thesis
        using grab_record_None_iff [of rec acc]
        by (simp add: vs bex_Un del: ip_values_of.simps)
    next
      case (Some acc')
      with IMap show ?thesis
        using grab_record_None_iff [of rec acc] Cons.IH [of acc']
        by (simp add: vs bex_Un del: ip_values_of.simps) blast
    qed
  qed (use Cons.IH [of acc] in \<open>simp_all add: vs\<close>)
qed

lemma grab_record_no_key:
  "''ipAddress'' \<notin> fst ` set rec \<Longrightarrow> grab_record rec acc = Some acc"
  by (induction rec arbitrary: acc) auto

lemma grab_ips_no_key:
  "\<forall>v \<in> set payload. \<forall>rec. v = IMap rec \<longrightarrow> ''ipAddress'' \<notin> fst ` set rec \<Longrightarrow>
     grab_ips payload acc = Some acc"
  by (induction payload arbitrary: acc) (auto simp: grab_record_no_key split: iface.splits)

lemma getClient_fields [simp]:
  "NodeID (snd (getClient d)) = NodeID d"
  "Base (snd (getClient d)) = Base d"
  "SSHPort (snd (getClient d)) = SSHPort d"
  "SSHUser (snd (getClient d)) = SSHUser d"
  "SSHPassword (snd (getClient d)) = SSHPassword d"
  by (simp_all add: getClient_def Let_def split: option.splits)

lemma probe_all_fail:
  "\<forall>h. \<forall>ip \<in> set ips. DialTimeout w h (ip @ '':'' @ Itoa (SSHPort d)) \<noteq> None \<Longrightarrow>
     probe w ips d t = (d, t @ map (\<lambda>ip. TcpDial (ip @ '':'' @ Itoa (SSHPort d))) ips)"
proof (induction ips arbitrary: t)
  case Nil
  then show ?case by simp
next
  case (Cons ip ips)
  from Cons.prems obtain e where "DialTimeout w t (ip @ '':'' @ Itoa (SSHPort d)) = Some e"
    by fastforce
  moreover from Cons.prems
  have "\<forall>h. \<forall>ip \<in> set ips. DialTimeout w h (ip @ '':'' @ Itoa (SSHPort d)) \<noteq> None"
    by simp
  ultimately show ?case using Cons.IH by (simp add: Let_def)
qed

text \<open>
  \<^verbatim>\<open>createSSHKey\<close> makes no probe and runs no command; of the driver it changes the
  key path of the base driver at most, as the first call of \<^verbatim>\<open>GetSSHKeyPath\<close> does.
\<close>

lemma createSSHKey_driver:
  "createSSHKey w d t = (r, d', t') \<Longrightarrow> d' = snd (GetSSHKeyPath w d)"
  by (auto simp: createSSHKey_def publicSSHKeyPath_def GetSSHKeyPath_def
             ResolveStorePath_def Let_def
           split: option.splits sum.splits prod.splits if_splits)

lemma createSSHKey_obs:
  "createSSHKey w d t = (r, d', t') \<Longrightarrow>
     dials t' = dials t \<and> closes t' = closes t \<and> ran t' = ran t \<and>
     IPAddress (Base d') = IPAddress (Base d)"
  by (auto simp: createSSHKey_def publicSSHKeyPath_def GetSSHKeyPath_def
             ResolveStorePath_def Let_def
           split: option.splits sum.splits prod.splits if_splits)

text \<open>
  \<^verbatim>\<open>createSSHKey\<close> against its two calls: the key is generated at the key path and
  the public key is read from that path with \<^verbatim>\<open>.pub\<close> appended; the first error is
  returned with an empty key, and the read is not made when the generation fails.
\<close>

lemma createSSHKey_calls:
  "createSSHKey w d t =
     (let d1 = snd (GetSSHKeyPath w d); path = SSHKeyPath (Base d1) in
      case GenerateSSHKey w t path of
        Some err \<Rightarrow> (('''', Some err), d1, t @ [KeyGen path])
      | None \<Rightarrow>
          (case ReadFile w (t @ [KeyGen path]) (path @ ''.pub'') of
             Inl err \<Rightarrow> (('''', Some err), d1, t @ [KeyGen path, FileRead (path @ ''.pub'')])
           | Inr publicKey \<Rightarrow>
               ((publicKey, None), d1, t @ [KeyGen path, FileRead (path @ ''.pub'')])))"
  by (auto simp: createSSHKey_def publicSSHKeyPath_def GetSSHKeyPath_def
             ResolveStorePath_def Let_def
           split: option.splits sum.splits prod.splits if_splits)

lemma executeSSHCommand_obs:
  "executeSSHCommand w c d t = (r, t') \<Longrightarrow> dials t' = dials t \<and> closes t' = closes t"
  by (auto simp: executeSSHCommand_def Let_def split: option.splits)

text \<open>
  \<^verbatim>\<open>executeSSHCommand\<close> against the three calls: if they return nil the result is
  nil after the four calls of a complete execution; if one of them returns an
  error, the first such error is the result, as it is, and nothing is called after
  the failing call but the deferred close. One of the two is always the case.
\<close>

lemma executeSSHCommand_succeeds:
  "command_succeeds w d h c \<Longrightarrow> executeSSHCommand w c d h = (None, h @ command_calls d c)"
  by (simp add: command_succeeds_def command_calls_def ssh_address_def executeSSHCommand_def
      Let_def)

lemma executeSSHCommand_fails:
  "command_fails w d h c e \<Longrightarrow>
     fst (executeSSHCommand w c d h) = Some e \<and>
     stops_within (snd (executeSSHCommand w c d h)) h d c"
  by (auto simp: command_fails_def stops_within_def command_calls_def ssh_address_def
      executeSSHCommand_def Let_def)

lemma command_succeeds_or_fails:
  "command_succeeds w d h c \<or> (\<exists>e. command_fails w d h c e)"
  by (cases "ssh_Dial w h (ssh_address d) (SSHUser d) (SSHPassword d)";
      cases "NewSession w (h @ take 1 (command_calls d c))";
      cases "Run w (h @ take 2 (command_calls d c)) c")
     (auto simp: command_succeeds_def command_fails_def)

lemma command_not_both:
  "command_succeeds w d h c \<Longrightarrow> \<not> command_fails w d h c e"
  by (auto simp: command_succeeds_def command_fails_def)

lemma command_fails_unique:
  "command_fails w d h c e \<Longrightarrow> command_fails w d h c e' \<Longrightarrow> e = e'"
  by (auto simp: command_fails_def)

text \<open>
  A history that stops within the execution of a command holds, of command lines
  run after \<open>h\<close>, that of the command at most; a complete execution has run it.
\<close>

lemma stops_within_ran:
  "stops_within t h d c \<Longrightarrow> ran t = ran h \<or> ran t = ran h @ [c]"
  by (auto simp: stops_within_def command_calls_def)

lemma command_calls_ran [simp]: "ran (command_calls d c) = [c]"
  by (simp add: command_calls_def)

text \<open>An error of \<^verbatim>\<open>executeSSHCommand\<close> is the error of one of its three calls, as it is.\<close>

lemma executeSSHCommand_error:
  "executeSSHCommand w c d t = (Some e, t') \<Longrightarrow>
     (\<exists>h a. ssh_Dial w h a (SSHUser d) (SSHPassword d) = Some e) \<or>
     (\<exists>h. NewSession w h = Some e) \<or>
     (\<exists>h. Run w h c = Some e)"
  by (auto simp: executeSSHCommand_def Let_def split: option.splits)

lemma Create_probe_unset:
  assumes "GetLookups w t (fst (getClient d)) (NodeID d) = Inr payload"
    and "grab_ips payload [] = Some ips"
    and "ips \<noteq> []"
    and "probe w ips (snd (getClient d)) (t @ [LookupsCall (fst (getClient d)) (NodeID d)]) = (d2, t2)"
    and "IPAddress (Base d2) = ''''"
  shows "Create w d t =
           (Returns (Some ''No IP addresses are accessible on this network to the Node ID specified. Error: %!s(<nil>)''),
            d2, t2)"
  using assms by (simp add: Create_def case_prod_unfold)

lemma Create_key_error:
  assumes "GetLookups w t (fst (getClient d)) (NodeID d) = Inr payload"
    and "grab_ips payload [] = Some ips"
    and "ips \<noteq> []"
    and "probe w ips (snd (getClient d)) (t @ [LookupsCall (fst (getClient d)) (NodeID d)]) = (d2, t2)"
    and "IPAddress (Base d2) \<noteq> ''''"
    and "createSSHKey w d2 t2 = ((key, Some err), dk, t3)"
  shows "Create w d t = (Returns (Some err), dk, t3)"
  using assms by (simp add: Create_def case_prod_unfold)

lemma Create_ssh_phase:
  assumes "GetLookups w t (fst (getClient d)) (NodeID d) = Inr payload"
    and "grab_ips payload [] = Some ips"
    and "ips \<noteq> []"
    and "probe w ips (snd (getClient d)) (t @ [LookupsCall (fst (getClient d)) (NodeID d)]) = (d2, t2)"
    and "IPAddress (Base d2) \<noteq> ''''"
    and "createSSHKey w d2 t2 = ((key, None), dk, t3)"
    and "d3 = dk\<lparr>SSHKey := TrimSpace key\<rparr>"
    and "executeSSHCommand w (mkdir_command d3) d3 t3 = (r1, t4)"
    and "executeSSHCommand w (write_command d3) d3 t4 = (r2, t5)"
    and "executeSSHCommand w (chmod_dir_command d3) d3 t5 = (r3, t6)"
    and "executeSSHCommand w (chmod_file_command d3) d3 t6 = (r4, t7)"
  shows "Create w d t =
           (if r1 \<noteq> None then (Returns r1, d3, t4)
            else if r2 \<noteq> None then (Returns r2, d3, t5)
            else if r3 \<noteq> None then (Returns r3, d3, t6)
            else (Returns r4, d3, t7))"
  using assms by (auto simp add: Create_def case_prod_unfold Let_def split: option.splits)

lemma Create_after_probe:
  assumes lk: "GetLookups w t (fst (getClient d)) (NodeID d) = Inr payload"
    and gr: "grab_ips payload [] = Some ips"
    and ne: "ips \<noteq> []"
    and pr: "probe w ips (snd (getClient d)) (t @ [LookupsCall (fst (getClient d)) (NodeID d)]) = (d2, t2)"
    and cr: "Create w d t = (r, d', t')"
  shows "dials t' = dials t2 \<and> closes t' = closes t2 \<and>
         IPAddress (Base d') = IPAddress (Base d2)"
proof (cases "IPAddress (Base d2) = ''''")
  case True
  from Create_probe_unset [OF lk gr ne pr True] cr show ?thesis by simp
next
  case set: False
  obtain key kerr dk t3 where k: "createSSHKey w d2 t2 = ((key, kerr), dk, t3)"
    by (metis prod.exhaust)
  note kobs = createSSHKey_obs [OF k]
  show ?thesis
  proof (cases kerr)
    case (Some err)
    from Create_key_error [OF lk gr ne pr set k [unfolded Some]] cr kobs
    show ?thesis by simp
  next
    case None
    define d3 where "d3 = dk\<lparr>SSHKey := TrimSpace key\<rparr>"
    obtain r1 t4 where 1: "executeSSHCommand w (mkdir_command d3) d3 t3 = (r1, t4)"
      by (metis prod.exhaust)
    obtain r2 t5 where 2: "executeSSHCommand w (write_command d3) d3 t4 = (r2, t5)"
      by (metis prod.exhaust)
    obtain r3 t6 where 3: "executeSSHCommand w (chmod_dir_command d3) d3 t5 = (r3, t6)"
      by (metis prod.exhaust)
    obtain r4 t7 where 4: "executeSSHCommand w (chmod_file_command d3) d3 t6 = (r4, t7)"
      by (metis prod.exhaust)
    note obs = executeSSHCommand_obs [OF 1] executeSSHCommand_obs [OF 2]
      executeSSHCommand_obs [OF 3] executeSSHCommand_obs [OF 4]
    from Create_ssh_phase [OF lk gr ne pr set k [unfolded None] d3_def 1 2 3 4] cr kobs obs
    show ?thesis by (simp add: d3_def split: if_splits)
  qed
qed

text \<open>
  When the driver's address is empty on entry and every candidate fails the probe,
  each candidate is dialled once, in the order of the list, and \<^verbatim>\<open>Create\<close> returns
  the error that no address is accessible; nothing else is called.
\<close>

lemma Create_unreachable_from_unset:
  assumes "IPAddress (Base d) = ''''"
    and "GetLookups w t (fst (getClient d)) (NodeID d) = Inr payload"
    and "grab_ips payload [] = Some ips"
    and "ips \<noteq> []"
    and "\<forall>h. \<forall>ip \<in> set ips. DialTimeout w h (ip @ '':'' @ Itoa (SSHPort d)) \<noteq> None"
  shows "Create w d t =
           (Returns (Some ''No IP addresses are accessible on this network to the Node ID specified. Error: %!s(<nil>)''),
            snd (getClient d),
            t @ [LookupsCall (fst (getClient d)) (NodeID d)]
              @ map (\<lambda>ip. TcpDial (ip @ '':'' @ Itoa (SSHPort d))) ips)"
proof -
  have "\<forall>h. \<forall>ip \<in> set ips. DialTimeout w h (ip @ '':'' @ Itoa (SSHPort (snd (getClient d)))) \<noteq> None"
    using assms(5) by simp
  from probe_all_fail [OF this] assms(1-4) show ?thesis
    by (simp add: Create_def case_prod_unfold)
qed

subsection \<open>Facts about the concrete setting\<close>

lemma Itoa_22: "Itoa 22 = ''22''"
  by (simp add: Itoa_def nat_digits.simps digit_char_def)

lemma example_lookup:
  "GetLookups example_world h (fst (getClient example_driver)) (NodeID example_driver)
     = Inr example_payload"
  "GetLookups world_unreachable h (fst (getClient example_driver)) (NodeID example_driver)
     = Inr example_payload"
  "GetLookups world_write_fails h (fst (getClient example_driver)) (NodeID example_driver)
     = Inr example_payload"
  by (simp_all add: example_world_def world_unreachable_def world_write_fails_def)

lemma example_grab:
  "grab_ips example_payload [] = Some [''10.0.0.1'', ''10.0.0.2'', ''10.0.0.3'']"
  by (simp add: example_payload_def)

lemma example_port: "Itoa (SSHPort example_driver) = ''22''"
  by (simp add: example_driver_def Itoa_22)

lemma example_getClient:
  "getClient example_driver =
     (\<lparr>Host = ''localhost:8080'', BasePath = ''/api/1.1'', Schemes = [''http'']\<rparr>,
      example_driver\<lparr>client := Some \<lparr>Host = ''localhost:8080'', BasePath = ''/api/1.1'', Schemes = [''http'']\<rparr>\<rparr>)"
  by (simp add: getClient_def example_driver_def NewDriver_def defaultEndpoint_def
      defaultTransport_def Let_def)

lemma example_NodeID: "NodeID example_driver = ''node1''"
  by (simp add: example_driver_def)

lemma TrimSpace_example_key:
  "TrimSpace (''ssh-rsa AAAA root@rack1'' @ [CHR 0x0A]) = ''ssh-rsa AAAA root@rack1''"
  by (simp add: TrimSpace_def space_runes_def trim_left.simps)

text \<open>
  White space beyond ASCII is trimmed as well: a no-break space (U+00A0) in front
  and an em space (U+2003) behind; a lone byte \<^verbatim>\<open>0xA0\<close> is no white space and
  stays.
\<close>

lemma TrimSpace_unicode:
  "TrimSpace ([CHR 0xC2, CHR 0xA0] @ ''key'' @ [CHR 0xE2, CHR 0x80, CHR 0x83]) = ''key''"
  "TrimSpace ([CHR 0xA0] @ ''key'') = [CHR 0xA0] @ ''key''"
  by (simp_all add: TrimSpace_def space_runes_def trim_left.simps)

lemma example_probe:
  "probe example_world [''10.0.0.1'', ''10.0.0.2'', ''10.0.0.3''] (snd (getClient example_driver))
     ([] @ [LookupsCall (fst (getClient example_driver)) (NodeID example_driver)])
     = (resolved_driver, resolved_history)"
  "probe world_write_fails [''10.0.0.1'', ''10.0.0.2'', ''10.0.0.3''] (snd (getClient example_driver))
     ([] @ [LookupsCall (fst (getClient example_driver)) (NodeID example_driver)])
     = (resolved_driver, resolved_history)"
  by (simp_all add: example_getClient example_NodeID example_port resolved_driver_def
      resolved_history_def world_write_fails_def example_world_def Let_def)

lemma example_createSSHKey:
  "createSSHKey example_world resolved_driver resolved_history
     = ((''ssh-rsa AAAA root@rack1'' @ [CHR 0x0A], None), keyed_driver, keyed_history)"
  "createSSHKey world_write_fails resolved_driver resolved_history
     = ((''ssh-rsa AAAA root@rack1'' @ [CHR 0x0A], None), keyed_driver, keyed_history)"
  by (simp_all add: createSSHKey_def publicSSHKeyPath_def GetSSHKeyPath_def
      ResolveStorePath_def keyed_driver_def keyed_history_def resolved_driver_def
      example_driver_def NewDriver_def world_write_fails_def example_world_def Let_def)

lemmas TrimSpace_example = TrimSpace_example_key [simplified]

lemma example_ready:
  "ready_driver = keyed_driver\<lparr>SSHKey := TrimSpace (''ssh-rsa AAAA root@rack1'' @ [CHR 0x0A])\<rparr>"
  by (simp add: ready_driver_def TrimSpace_example)

lemma example_resolved_ip: "IPAddress (Base resolved_driver) \<noteq> ''''"
  by (simp add: resolved_driver_def)

lemma example_ready_fields:
  "SSHUser ready_driver = ''root''"
  "SSHKey ready_driver = ''ssh-rsa AAAA root@rack1''"
  "ran keyed_history = []"
  by (simp_all add: ready_driver_def keyed_driver_def resolved_driver_def example_driver_def
      keyed_history_def resolved_history_def)

lemmas example_defs =
  Create_def getClient_def stale_driver_def example_driver_def NewDriver_def
  defaultEndpoint_def defaultTransport_def defaultSSHUser_def defaultSSHPassword_def
  defaultSSHPort_def example_world_def example_payload_def
  Itoa_22 createSSHKey_def publicSSHKeyPath_def GetSSHKeyPath_def ResolveStorePath_def
  executeSSHCommand_def TrimSpace_example Let_def

lemma Create_stale_eval:
  "Create world_unreachable stale_driver [] =
     (Returns None,
      stale_driver\<lparr>Base := (Base stale_driver)\<lparr>SSHKeyPath := ''/store/machines/rack1/id_rsa''\<rparr>,
                    client := Some \<lparr>Host = ''localhost:8080'', BasePath = ''/api/1.1'', Schemes = [''http'']\<rparr>,
                    SSHKey := ''ssh-rsa AAAA root@rack1''\<rparr>,
      [LookupsCall \<lparr>Host = ''localhost:8080'', BasePath = ''/api/1.1'', Schemes = [''http'']\<rparr> ''node1'',
       TcpDial ''10.0.0.1:22'', TcpDial ''10.0.0.2:22'', TcpDial ''10.0.0.3:22'',
       KeyGen ''/store/machines/rack1/id_rsa'', FileRead ''/store/machines/rack1/id_rsa.pub'',
       SshDial ''10.0.0.9:22'' ''root'' ''root'', SessionNew,
       SessionRun ''mkdir -p /home/root/.ssh'', SessionClose,
       SshDial ''10.0.0.9:22'' ''root'' ''root'', SessionNew,
       SessionRun (''echo '' @ [CHR 0x27] @ ''ssh-rsa AAAA root@rack1'' @ [CHR 0x27]
                   @ '' > /home/root/.ssh/authorized_keys''), SessionClose,
       SshDial ''10.0.0.9:22'' ''root'' ''root'', SessionNew,
       SessionRun ''chmod 700 /home/root/.ssh'', SessionClose,
       SshDial ''10.0.0.9:22'' ''root'' ''root'', SessionNew,
       SessionRun ''chmod 600 /home/root/.ssh/authorized_keys'', SessionClose])"
  by (simp add: example_defs world_unreachable_def)

lemma Create_mkdir_fails_eval:
  "Create world_mkdir_fails example_driver [] =
     (Returns (Some ''Process exited with status 1''),
      example_driver\<lparr>Base := (Base example_driver)\<lparr>IPAddress := ''10.0.0.2'',
                                                      SSHKeyPath := ''/store/machines/rack1/id_rsa''\<rparr>,
                      client := Some \<lparr>Host = ''localhost:8080'', BasePath = ''/api/1.1'', Schemes = [''http'']\<rparr>,
                      SSHKey := ''ssh-rsa AAAA root@rack1''\<rparr>,
      [LookupsCall \<lparr>Host = ''localhost:8080'', BasePath = ''/api/1.1'', Schemes = [''http'']\<rparr> ''node1'',
       TcpDial ''10.0.0.1:22'', TcpDial ''10.0.0.2:22'', ConnClose ''10.0.0.2:22'',
       KeyGen ''/store/machines/rack1/id_rsa'', FileRead ''/store/machines/rack1/id_rsa.pub'',
       SshDial ''10.0.0.2:22'' ''root'' ''root'', SessionNew,
       SessionRun ''mkdir -p /home/root/.ssh'', SessionClose])"
  by (simp add: example_defs world_mkdir_fails_def)

lemma Create_write_fails_eval:
  "Create world_write_fails example_driver [] =
     (Returns (Some ''Process exited with status 1''),
      example_driver\<lparr>Base := (Base example_driver)\<lparr>IPAddress := ''10.0.0.2'',
                                                      SSHKeyPath := ''/store/machines/rack1/id_rsa''\<rparr>,
                      client := Some \<lparr>Host = ''localhost:8080'', BasePath = ''/api/1.1'', Schemes = [''http'']\<rparr>,
                      SSHKey := ''ssh-rsa AAAA root@rack1''\<rparr>,
      [LookupsCall \<lparr>Host = ''localhost:8080'', BasePath = ''/api/1.1'', Schemes = [''http'']\<rparr> ''node1'',
       TcpDial ''10.0.0.1:22'', TcpDial ''10.0.0.2:22'', ConnClose ''10.0.0.2:22'',
       KeyGen ''/store/machines/rack1/id_rsa'', FileRead ''/store/machines/rack1/id_rsa.pub'',
       SshDial ''10.0.0.2:22'' ''root'' ''root'', SessionNew,
       SessionRun ''mkdir -p /home/root/.ssh'', SessionClose,
       SshDial ''10.0.0.2:22'' ''root'' ''root'', SessionNew,
       SessionRun (''echo '' @ [CHR 0x27] @ ''ssh-rsa AAAA root@rack1'' @ [CHR 0x27]
                   @ '' > /home/root/.ssh/authorized_keys''), SessionClose])"
  by (simp add: example_defs world_write_fails_def)

lemma Create_bad_record_eval:
  "Create world_bad_record example_driver [] =
     (Panics,
      example_driver\<lparr>client := Some \<lparr>Host = ''localhost:8080'', BasePath = ''/api/1.1'', Schemes = [''http'']\<rparr>\<rparr>,
      [LookupsCall \<lparr>Host = ''localhost:8080'', BasePath = ''/api/1.1'', Schemes = [''http'']\<rparr> ''node1''])"
  by (simp add: example_defs world_bad_record_def)

text \<open>The example of an unreachable node on a driver without address.\<close>

lemma Create_unreachable_example:
  "Create world_unreachable example_driver [] =
     (Returns (Some ''No IP addresses are accessible on this network to the Node ID specified. Error: %!s(<nil>)''),
      example_driver\<lparr>client := Some \<lparr>Host = ''localhost:8080'', BasePath = ''/api/1.1'', Schemes = [''http'']\<rparr>\<rparr>,
      [LookupsCall \<lparr>Host = ''localhost:8080'', BasePath = ''/api/1.1'', Schemes = [''http'']\<rparr> ''node1'',
       TcpDial ''10.0.0.1:22'', TcpDial ''10.0.0.2:22'', TcpDial ''10.0.0.3:22''])"
proof -
  have ip: "IPAddress (Base example_driver) = ''''"
    by (simp add: example_driver_def NewDriver_def)
  have ne: "[''10.0.0.1'', ''10.0.0.2'', ''10.0.0.3''] \<noteq> ([] :: string list)" by simp
  have a: "\<forall>h. \<forall>ip \<in> set [''10.0.0.1'', ''10.0.0.2'', ''10.0.0.3''].
             DialTimeout world_unreachable h (ip @ '':'' @ Itoa (SSHPort example_driver)) \<noteq> None"
    by (simp add: world_unreachable_def)
  from Create_unreachable_from_unset [OF ip example_lookup(2) example_grab ne a, of "[]"]
  show ?thesis
    by (simp add: example_port example_getClient example_NodeID)
qed

section \<open>The claims\<close>

subsection \<open>C1: the four remote commands\<close>

text \<open>
  Claim C1, as amended. Suppose \<^verbatim>\<open>Create\<close> has resolved an address and generated the
  key, so that it reaches the remote commands with driver \<open>d3\<close> and history \<open>t3\<close>.
  A command fails when its dial, its new session or its run returns an error, and
  succeeds when none of them does. The four commands are executed in the order
  \<^verbatim>\<open>mkdir\<close>, write of \<^verbatim>\<open>authorized_keys\<close>, \<^verbatim>\<open>chmod 700\<close>, \<^verbatim>\<open>chmod 600\<close>, each in the
  history that the complete executions before it have left. If one of them fails
  after those before it have succeeded, \<^verbatim>\<open>Create\<close> returns exactly the error of the
  failing call, and its history stops within the execution of that command: no
  later command is dialled or run. If all four succeed, \<^verbatim>\<open>Create\<close> returns nil and
  the history is that of the four complete executions in this order. The error is
  passed on as it is: nothing is added that names the step.
\<close>

theorem Create_remote_setup:
  assumes lk: "GetLookups w t (fst (getClient d)) (NodeID d) = Inr payload"
    and gr: "grab_ips payload [] = Some ips"
    and ne: "ips \<noteq> []"
    and pr: "probe w ips (snd (getClient d)) (t @ [LookupsCall (fst (getClient d)) (NodeID d)]) = (d2, t2)"
    and ip: "IPAddress (Base d2) \<noteq> ''''"
    and ky: "createSSHKey w d2 t2 = ((key, None), dk, t3)"
    and d3: "d3 = dk\<lparr>SSHKey := TrimSpace key\<rparr>"
    and h2: "h2 = t3 @ command_calls d3 (mkdir_command d3)"
    and h3: "h3 = h2 @ command_calls d3 (write_command d3)"
    and h4: "h4 = h3 @ command_calls d3 (chmod_dir_command d3)"
    and cr: "Create w d t = (r, d', t')"
  shows
    "d' = d3 \<and>
     (command_fails w d3 t3 (mkdir_command d3) e \<longrightarrow>
        r = Returns (Some e) \<and> stops_within t' t3 d3 (mkdir_command d3)) \<and>
     (command_succeeds w d3 t3 (mkdir_command d3) \<and>
      command_fails w d3 h2 (write_command d3) e \<longrightarrow>
        r = Returns (Some e) \<and> stops_within t' h2 d3 (write_command d3)) \<and>
     (command_succeeds w d3 t3 (mkdir_command d3) \<and>
      command_succeeds w d3 h2 (write_command d3) \<and>
      command_fails w d3 h3 (chmod_dir_command d3) e \<longrightarrow>
        r = Returns (Some e) \<and> stops_within t' h3 d3 (chmod_dir_command d3)) \<and>
     (command_succeeds w d3 t3 (mkdir_command d3) \<and>
      command_succeeds w d3 h2 (write_command d3) \<and>
      command_succeeds w d3 h3 (chmod_dir_command d3) \<and>
      command_fails w d3 h4 (chmod_file_command d3) e \<longrightarrow>
        r = Returns (Some e) \<and> stops_within t' h4 d3 (chmod_file_command d3)) \<and>
     (command_succeeds w d3 t3 (mkdir_command d3) \<and>
      command_succeeds w d3 h2 (write_command d3) \<and>
      command_succeeds w d3 h3 (chmod_dir_command d3) \<and>
      command_succeeds w d3 h4 (chmod_file_command d3) \<longrightarrow>
        r = Returns None \<and> t' = h4 @ command_calls d3 (chmod_file_command d3))"
proof -
  let ?c1 = "mkdir_command d3" and ?c2 = "write_command d3"
  let ?c3 = "chmod_dir_command d3" and ?c4 = "chmod_file_command d3"
  obtain r1 t4 where 1: "executeSSHCommand w ?c1 d3 t3 = (r1, t4)"
    by (metis prod.exhaust)
  obtain r2 t5 where 2: "executeSSHCommand w ?c2 d3 t4 = (r2, t5)"
    by (metis prod.exhaust)
  obtain r3 t6 where 3: "executeSSHCommand w ?c3 d3 t5 = (r3, t6)"
    by (metis prod.exhaust)
  obtain r4 t7 where 4: "executeSSHCommand w ?c4 d3 t6 = (r4, t7)"
    by (metis prod.exhaust)
  have c: "(r, d', t') =
             (if r1 \<noteq> None then (Returns r1, d3, t4)
              else if r2 \<noteq> None then (Returns r2, d3, t5)
              else if r3 \<noteq> None then (Returns r3, d3, t6)
              else (Returns r4, d3, t7))"
    using Create_ssh_phase [OF lk gr ne pr ip ky d3 1 2 3 4] cr by simp
  have s1: "r1 = None \<and> t4 = h2" if "command_succeeds w d3 t3 ?c1"
    using executeSSHCommand_succeeds [OF that] 1 h2 by simp
  have s2: "r2 = None \<and> t5 = h3"
    if "command_succeeds w d3 t3 ?c1" "command_succeeds w d3 h2 ?c2"
    using executeSSHCommand_succeeds [OF that(2)] s1 [OF that(1)] 2 h3 by simp
  have s3: "r3 = None \<and> t6 = h4"
    if "command_succeeds w d3 t3 ?c1" "command_succeeds w d3 h2 ?c2"
      "command_succeeds w d3 h3 ?c3"
    using executeSSHCommand_succeeds [OF that(3)] s2 [OF that(1,2)] 3 h4 by simp
  have "d' = d3" using c by (simp split: if_splits)
  moreover have "command_fails w d3 t3 ?c1 e \<longrightarrow>
      r = Returns (Some e) \<and> stops_within t' t3 d3 ?c1"
  proof
    assume f: "command_fails w d3 t3 ?c1 e"
    from executeSSHCommand_fails [OF f] 1 have "r1 = Some e" "stops_within t4 t3 d3 ?c1"
      by simp_all
    with c show "r = Returns (Some e) \<and> stops_within t' t3 d3 ?c1" by simp
  qed
  moreover have "command_succeeds w d3 t3 ?c1 \<and> command_fails w d3 h2 ?c2 e \<longrightarrow>
      r = Returns (Some e) \<and> stops_within t' h2 d3 ?c2"
  proof
    assume a: "command_succeeds w d3 t3 ?c1 \<and> command_fails w d3 h2 ?c2 e"
    then have p: "r1 = None" "t4 = h2" using s1 by simp_all
    from a have f: "command_fails w d3 h2 ?c2 e" by simp
    from executeSSHCommand_fails [OF f] 2 p have "r2 = Some e" "stops_within t5 h2 d3 ?c2"
      by simp_all
    with c p show "r = Returns (Some e) \<and> stops_within t' h2 d3 ?c2" by simp
  qed
  moreover have "command_succeeds w d3 t3 ?c1 \<and> command_succeeds w d3 h2 ?c2 \<and>
      command_fails w d3 h3 ?c3 e \<longrightarrow>
      r = Returns (Some e) \<and> stops_within t' h3 d3 ?c3"
  proof
    assume a: "command_succeeds w d3 t3 ?c1 \<and> command_succeeds w d3 h2 ?c2 \<and>
      command_fails w d3 h3 ?c3 e"
    then have p: "r1 = None" "r2 = None" "t5 = h3" using s1 s2 by simp_all
    from a have f: "command_fails w d3 h3 ?c3 e" by simp
    from executeSSHCommand_fails [OF f] 3 p have "r3 = Some e" "stops_within t6 h3 d3 ?c3"
      by simp_all
    with c p show "r = Returns (Some e) \<and> stops_within t' h3 d3 ?c3" by simp
  qed
  moreover have "command_succeeds w d3 t3 ?c1 \<and> command_succeeds w d3 h2 ?c2 \<and>
      command_succeeds w d3 h3 ?c3 \<and> command_fails w d3 h4 ?c4 e \<longrightarrow>
      r = Returns (Some e) \<and> stops_within t' h4 d3 ?c4"
  proof
    assume a: "command_succeeds w d3 t3 ?c1 \<and> command_succeeds w d3 h2 ?c2 \<and>
      command_succeeds w d3 h3 ?c3 \<and> command_fails w d3 h4 ?c4 e"
    then have p: "r1 = None" "r2 = None" "r3 = None" "t6 = h4" using s1 s2 s3 by simp_all
    from a have f: "command_fails w d3 h4 ?c4 e" by simp
    from executeSSHCommand_fails [OF f] 4 p have "r4 = Some e" "stops_within t7 h4 d3 ?c4"
      by simp_all
    with c p show "r = Returns (Some e) \<and> stops_within t' h4 d3 ?c4" by simp
  qed
  moreover have "command_succeeds w d3 t3 ?c1 \<and> command_succeeds w d3 h2 ?c2 \<and>
      command_succeeds w d3 h3 ?c3 \<and> command_succeeds w d3 h4 ?c4 \<longrightarrow>
      r = Returns None \<and> t' = h4 @ command_calls d3 ?c4"
  proof
    assume a: "command_succeeds w d3 t3 ?c1 \<and> command_succeeds w d3 h2 ?c2 \<and>
      command_succeeds w d3 h3 ?c3 \<and> command_succeeds w d3 h4 ?c4"
    then have p: "r1 = None" "r2 = None" "r3 = None" "t6 = h4" using s1 s2 s3 by simp_all
    from a have s: "command_succeeds w d3 h4 ?c4" by simp
    from executeSSHCommand_succeeds [OF s] 4 p
    have "r4 = None" "t7 = h4 @ command_calls d3 ?c4" by simp_all
    with c p show "r = Returns None \<and> t' = h4 @ command_calls d3 ?c4" by simp
  qed
  ultimately show ?thesis by blast
qed

text \<open>
  The theorem at work, twice. Where the run of the write of \<^verbatim>\<open>authorized_keys\<close>
  exits with status 1 after a successful \<^verbatim>\<open>mkdir\<close>, \<^verbatim>\<open>Create\<close> returns that error.
  Where all four commands succeed, \<^verbatim>\<open>Create\<close> returns nil and has run the four
  command lines in the fixed order.
\<close>

theorem Create_remote_setup_witness:
  "fst (Create world_write_fails example_driver []) = Returns (Some ''Process exited with status 1'') \<and>
   fst (Create example_world example_driver []) = Returns None \<and>
   ran (snd (snd (Create example_world example_driver []))) =
     [''mkdir -p /home/root/.ssh'',
      ''echo '' @ [CHR 0x27] @ ''ssh-rsa AAAA root@rack1'' @ [CHR 0x27]
        @ '' > /home/root/.ssh/authorized_keys'',
      ''chmod 700 /home/root/.ssh'',
      ''chmod 600 /home/root/.ssh/authorized_keys'']"
proof -
  let ?d = ready_driver
  let ?h2 = "keyed_history @ command_calls ?d (mkdir_command ?d)"
  let ?h3 = "?h2 @ command_calls ?d (write_command ?d)"
  let ?h4 = "?h3 @ command_calls ?d (chmod_dir_command ?d)"
  have ne: "[''10.0.0.1'', ''10.0.0.2'', ''10.0.0.3''] \<noteq> ([] :: string list)" by simp
  obtain r d' t' where c: "Create world_write_fails example_driver [] = (r, d', t')"
    by (rule prod_cases3)
  have s1: "command_succeeds world_write_fails ?d keyed_history (mkdir_command ?d)"
    by (simp add: command_succeeds_def world_write_fails_def example_world_def)
  have f2: "command_fails world_write_fails ?d ?h2 (write_command ?d) ''Process exited with status 1''"
    by (simp add: command_fails_def world_write_fails_def example_world_def)
  from Create_remote_setup [where e = "''Process exited with status 1''",
      OF example_lookup(3) example_grab ne example_probe(2) example_resolved_ip
        example_createSSHKey(2) example_ready refl refl refl c] s1 f2
  have A: "fst (Create world_write_fails example_driver []) = Returns (Some ''Process exited with status 1'')"
    by (simp add: c)
  obtain q d'' t'' where c': "Create example_world example_driver [] = (q, d'', t'')"
    by (rule prod_cases3)
  have ok: "command_succeeds example_world ?d keyed_history (mkdir_command ?d)"
    "command_succeeds example_world ?d ?h2 (write_command ?d)"
    "command_succeeds example_world ?d ?h3 (chmod_dir_command ?d)"
    "command_succeeds example_world ?d ?h4 (chmod_file_command ?d)"
    by (simp_all add: command_succeeds_def example_world_def)
  from Create_remote_setup [where e = "''''",
      OF example_lookup(1) example_grab ne example_probe(1) example_resolved_ip
        example_createSSHKey(1) example_ready refl refl refl c'] ok
  have "q = Returns None" "t'' = ?h4 @ command_calls ?d (chmod_file_command ?d)"
    by simp_all
  then have B: "fst (Create example_world example_driver []) = Returns None"
    "ran (snd (snd (Create example_world example_driver []))) =
     [''mkdir -p /home/root/.ssh'',
      ''echo '' @ [CHR 0x27] @ ''ssh-rsa AAAA root@rack1'' @ [CHR 0x27]
        @ '' > /home/root/.ssh/authorized_keys'',
      ''chmod 700 /home/root/.ssh'',
      ''chmod 600 /home/root/.ssh/authorized_keys'']"
    by (simp_all add: c' example_ready_fields)
  from A B show ?thesis by simp
qed

text \<open>
  Claim C1 as stated fails: the error \<^verbatim>\<open>Create\<close> returns does not identify the
  step. When the \<^verbatim>\<open>mkdir\<close> exits with status 1 and when the write of
  \<^verbatim>\<open>authorized_keys\<close> exits with status 1, \<^verbatim>\<open>Create\<close> returns the same error, the bare
  exit error of the session; only the commands that ran differ.
\<close>

theorem Create_error_names_no_step:
  "fst (Create world_mkdir_fails example_driver []) = Returns (Some ''Process exited with status 1'') \<and>
   ran (snd (snd (Create world_mkdir_fails example_driver []))) = [''mkdir -p /home/root/.ssh''] \<and>
   fst (Create world_write_fails example_driver []) = Returns (Some ''Process exited with status 1'') \<and>
   ran (snd (snd (Create world_write_fails example_driver []))) =
     [''mkdir -p /home/root/.ssh'',
      ''echo '' @ [CHR 0x27] @ ''ssh-rsa AAAA root@rack1'' @ [CHR 0x27]
        @ '' > /home/root/.ssh/authorized_keys'']"
  by (simp add: Create_mkdir_fails_eval Create_write_fails_eval)


subsection \<open>C2: the candidate list\<close>

text \<open>
  Claim C2, as amended. For every lookup response in which every value stored
  under the key \<^verbatim>\<open>ipAddress\<close> is a string, the candidate list that \<^verbatim>\<open>Create\<close> builds
  is exactly the list of the \<^verbatim>\<open>ipAddress\<close> values of the response: in the order of
  the records, duplicates kept, nothing filtered but by the key.
\<close>

theorem grab_ips_exact:
  "\<forall>x \<in> set (ip_values payload). \<exists>s. x = IString s \<Longrightarrow>
     \<exists>ips. grab_ips payload [] = Some ips \<and> map IString ips = ip_values payload"
  using grab_ips_strings [of payload "[]"] by simp

text \<open>The theorem at work on the example payload, with its three addresses.\<close>

theorem grab_ips_exact_witness:
  "grab_ips example_payload [] = Some [''10.0.0.1'', ''10.0.0.2'', ''10.0.0.3'']"
proof -
  have v: "ip_values example_payload =
             [IString ''10.0.0.1'', IString ''10.0.0.2'', IString ''10.0.0.3'']"
    by (simp add: ip_values_def example_payload_def)
  then have "\<forall>x \<in> set (ip_values example_payload). \<exists>s. x = IString s"
    by simp
  from grab_ips_exact [OF this] obtain ips where
    "grab_ips example_payload [] = Some ips" "map IString ips = ip_values example_payload"
    by blast
  with v show ?thesis by auto
qed

text \<open>
  Claim C2 as stated fails on a response whose record carries an \<^verbatim>\<open>ipAddress\<close>
  that is not a string: the unchecked type assertion panics, no list is built and
  \<^verbatim>\<open>Create\<close> does not return.
\<close>

theorem grab_ips_panics_on_non_string:
  "grab_ips [IMap [(''ipAddress'', IOther)]] [] = None \<and>
   GetLookups world_bad_record [] (fst (getClient example_driver)) (NodeID example_driver)
     = Inr [IMap [(''ipAddress'', IOther)]] \<and>
   fst (Create world_bad_record example_driver []) = Panics"
  by (simp add: Create_bad_record_eval) (simp add: world_bad_record_def)

subsection \<open>C3: the first address that answers is taken\<close>

text \<open>
  Claim C3. When the candidates are \<open>[A, B, C]\<close> and only \<open>B\<close> accepts a TCP
  connection on the SSH port, \<^verbatim>\<open>Create\<close> dials \<open>A\<close> and then \<open>B\<close> and no other
  address, closes the connection to \<open>B\<close>, and leaves \<open>B\<close> as the driver's IP
  address; a connection to \<open>C\<close> is not attempted.
\<close>

theorem Create_first_reachable:
  assumes "GetLookups w t (fst (getClient d)) (NodeID d) = Inr payload"
    and "grab_ips payload [] = Some [A, B, C]"
    and "\<forall>h. DialTimeout w h (A @ '':'' @ Itoa (SSHPort d)) \<noteq> None"
    and "\<forall>h. DialTimeout w h (B @ '':'' @ Itoa (SSHPort d)) = None"
    and "\<forall>h. DialTimeout w h (C @ '':'' @ Itoa (SSHPort d)) \<noteq> None"
    and "Create w d t = (r, d', t')"
  shows "IPAddress (Base d') = B \<and>
         dials t' = dials t @ [A @ '':'' @ Itoa (SSHPort d), B @ '':'' @ Itoa (SSHPort d)] \<and>
         closes t' = closes t @ [B @ '':'' @ Itoa (SSHPort d)] \<and>
         (C \<noteq> A \<and> C @ '':'' @ Itoa (SSHPort d) \<notin> set (dials t) \<longrightarrow>
            C @ '':'' @ Itoa (SSHPort d) \<notin> set (dials t'))"
proof -
  let ?d1 = "snd (getClient d)"
  let ?t1 = "t @ [LookupsCall (fst (getClient d)) (NodeID d)]"
  let ?p = "Itoa (SSHPort d)"
  from assms(3,4) have pr:
    "probe w [A, B, C] ?d1 ?t1 =
       (?d1\<lparr>Base := (Base ?d1)\<lparr>IPAddress := B\<rparr>\<rparr>,
        ?t1 @ [TcpDial (A @ '':'' @ ?p)] @ [TcpDial (B @ '':'' @ ?p), ConnClose (B @ '':'' @ ?p)])"
    by (auto simp: Let_def split: option.splits)
  from assms(4,5) have "C \<noteq> B" by auto
  from Create_after_probe [OF assms(1,2) _ pr assms(6)]
  have "dials t' = dials t @ [A @ '':'' @ ?p, B @ '':'' @ ?p]"
    "closes t' = closes t @ [B @ '':'' @ ?p]" "IPAddress (Base d') = B"
    by simp_all
  with \<open>C \<noteq> B\<close> show ?thesis by simp
qed

text \<open>The theorem at work: of 10.0.0.1, 10.0.0.2 and 10.0.0.3 only the second answers.\<close>

theorem Create_first_reachable_witness:
  "IPAddress (Base (fst (snd (Create example_world example_driver [])))) = ''10.0.0.2'' \<and>
   dials (snd (snd (Create example_world example_driver []))) = [''10.0.0.1:22'', ''10.0.0.2:22''] \<and>
   closes (snd (snd (Create example_world example_driver []))) = [''10.0.0.2:22''] \<and>
   ''10.0.0.3:22'' \<notin> set (dials (snd (snd (Create example_world example_driver []))))"
proof -
  obtain r d' t' where c: "Create example_world example_driver [] = (r, d', t')"
    by (rule prod_cases3)
  have a: "\<forall>h. DialTimeout example_world h (''10.0.0.1'' @ '':'' @ Itoa (SSHPort example_driver)) \<noteq> None"
    by (simp add: example_port example_world_def)
  have b: "\<forall>h. DialTimeout example_world h (''10.0.0.2'' @ '':'' @ Itoa (SSHPort example_driver)) = None"
    by (simp add: example_port example_world_def)
  have cc: "\<forall>h. DialTimeout example_world h (''10.0.0.3'' @ '':'' @ Itoa (SSHPort example_driver)) \<noteq> None"
    by (simp add: example_port example_world_def)
  from Create_first_reachable [OF example_lookup(1) example_grab a b cc c]
  show ?thesis by (simp add: c example_port)
qed

subsection \<open>C4: no address answers\<close>

text \<open>
  Claim C4 says that when every candidate fails the TCP probe, \<^verbatim>\<open>Create\<close> probes
  each candidate once, in the order of the list, and returns the error that no
  address is accessible, without generating a key or running a remote command.
  The code does so only when the driver's address is empty on entry: the test
  after the loop reads the field \<^verbatim>\<open>d.IPAddress\<close>, not the outcome of the probes. On
  a driver that already carries the address 10.0.0.9, with the three candidates
  10.0.0.1, 10.0.0.2 and 10.0.0.3 all failing the probe, \<^verbatim>\<open>Create\<close> dials each of
  them once, then generates the key, runs the four commands against the old
  address and returns nil.
\<close>

theorem stale_address_hides_unreachable:
  "IPAddress (Base stale_driver) = ''10.0.0.9'' \<and>
   grab_ips example_payload [] = Some [''10.0.0.1'', ''10.0.0.2'', ''10.0.0.3''] \<and>
   DialTimeout world_unreachable [] ''10.0.0.1:22'' = Some ''i/o timeout'' \<and>
   DialTimeout world_unreachable [] ''10.0.0.2:22'' = Some ''i/o timeout'' \<and>
   DialTimeout world_unreachable [] ''10.0.0.3:22'' = Some ''i/o timeout'' \<and>
   fst (Create world_unreachable stale_driver []) = Returns None \<and>
   dials (snd (snd (Create world_unreachable stale_driver [])))
     = [''10.0.0.1:22'', ''10.0.0.2:22'', ''10.0.0.3:22''] \<and>
   KeyGen ''/store/machines/rack1/id_rsa''
     \<in> set (snd (snd (Create world_unreachable stale_driver []))) \<and>
   SshDial ''10.0.0.9:22'' ''root'' ''root''
     \<in> set (snd (snd (Create world_unreachable stale_driver []))) \<and>
   ran (snd (snd (Create world_unreachable stale_driver []))) =
     [''mkdir -p /home/root/.ssh'',
      ''echo '' @ [CHR 0x27] @ ''ssh-rsa AAAA root@rack1'' @ [CHR 0x27]
        @ '' > /home/root/.ssh/authorized_keys'',
      ''chmod 700 /home/root/.ssh'',
      ''chmod 600 /home/root/.ssh/authorized_keys'']"
  by (simp add: Create_stale_eval example_grab)
    (simp add: stale_driver_def world_unreachable_def example_world_def)


subsection \<open>C5: no address known\<close>

text \<open>
  Claim C5. If the lookup succeeds and its payload is empty or holds no record with
  an \<^verbatim>\<open>ipAddress\<close> entry, \<^verbatim>\<open>Create\<close> returns the error that no address is
  associated with the node, and the lookup is the only call it has made: no TCP
  probe is attempted.
\<close>

theorem Create_no_addresses:
  assumes "GetLookups w t (fst (getClient d)) (NodeID d) = Inr payload"
    and "payload = [] \<or>
         (\<forall>v \<in> set payload. \<forall>rec. v = IMap rec \<longrightarrow> ''ipAddress'' \<notin> fst ` set rec)"
  shows "Create w d t =
           (Returns (Some ''No IP addresses are associated with the Node ID specified. Error: %!s(<nil>)''),
            snd (getClient d),
            t @ [LookupsCall (fst (getClient d)) (NodeID d)])"
proof -
  from assms(2) have "grab_ips payload [] = Some []"
    using grab_ips_no_key [of payload "[]"] by auto
  with assms(1) show ?thesis
    by (simp add: Create_def case_prod_unfold)
qed

text \<open>The theorem at work: an inventory that returns a record without address.\<close>

theorem Create_no_addresses_witness:
  "Create world_no_address example_driver [] =
     (Returns (Some ''No IP addresses are associated with the Node ID specified. Error: %!s(<nil>)''),
      example_driver\<lparr>client := Some \<lparr>Host = ''localhost:8080'', BasePath = ''/api/1.1'', Schemes = [''http'']\<rparr>\<rparr>,
      [LookupsCall \<lparr>Host = ''localhost:8080'', BasePath = ''/api/1.1'', Schemes = [''http'']\<rparr> ''node1'']) \<and>
   dials (snd (snd (Create world_no_address example_driver []))) = []"
proof -
  let ?p = "[IMap [(''macAddress'', IString ''52:54:00:12:34:56'')], IOther]"
  have lk: "GetLookups world_no_address [] (fst (getClient example_driver)) (NodeID example_driver)
              = Inr ?p"
    by (simp add: world_no_address_def)
  have nk: "?p = [] \<or> (\<forall>v \<in> set ?p. \<forall>rec. v = IMap rec \<longrightarrow> ''ipAddress'' \<notin> fst ` set rec)"
    by simp
  from Create_no_addresses [OF lk nk]
  show ?thesis by (simp add: example_getClient example_NodeID)
qed

subsection \<open>C6: port 443 forces https\<close>

text \<open>
  Claim C6. For every flag set, after \<^verbatim>\<open>SetConfigFromFlags\<close> has returned nil the
  driver's SSH port is the configured one; if it is 443 the transport is
  \<^verbatim>\<open>https\<close> whatever the transport flag says, otherwise the transport is the
  transport flag.
\<close>

theorem SetConfigFromFlags_transport:
  "SetConfigFromFlags flags d = (None, d') \<Longrightarrow>
     SSHPort d' = Int_flag flags ''rackhd-ssh-port'' \<and>
     Transport d' = (if Int_flag flags ''rackhd-ssh-port'' = 443 then ''https''
                     else String_flag flags ''rackhd-transport'')"
  by (auto simp: SetConfigFromFlags_def Let_def split: if_splits)

text \<open>The theorem at work: port 443 with the transport flag \<^verbatim>\<open>http\<close>.\<close>

theorem SetConfigFromFlags_transport_witness:
  "fst (SetConfigFromFlags flags_443 (NewDriver ''rack1'' ''/store'')) = None \<and>
   String_flag flags_443 ''rackhd-transport'' = ''http'' \<and>
   Transport (snd (SetConfigFromFlags flags_443 (NewDriver ''rack1'' ''/store''))) = ''https''"
proof -
  have ok: "fst (SetConfigFromFlags flags_443 (NewDriver ''rack1'' ''/store'')) = None"
    by (simp add: SetConfigFromFlags_def flags_443_def Let_def)
  then have "SetConfigFromFlags flags_443 (NewDriver ''rack1'' ''/store'')
               = (None, snd (SetConfigFromFlags flags_443 (NewDriver ''rack1'' ''/store'')))"
    by (metis prod.collapse)
  from SetConfigFromFlags_transport [OF this] ok
  show ?thesis by (simp add: flags_443_def)
qed

subsection \<open>C7: the URL\<close>

text \<open>
  Claim C7. When the driver's IP address is set, \<^verbatim>\<open>GetURL\<close> returns
  \<^verbatim>\<open>tcp://<ip>:2376\<close> and no error; when it is the empty string, \<^verbatim>\<open>GetURL\<close> returns
  the empty string and the error \<^verbatim>\<open>IP address is not set\<close>. So a URL is returned
  exactly when the address is set.
\<close>

theorem GetURL_result:
  "(IPAddress (Base d) \<noteq> '''' \<longrightarrow>
      fst (GetURL d) = (''tcp://'' @ IPAddress (Base d) @ '':2376'', None)) \<and>
   (IPAddress (Base d) = '''' \<longrightarrow>
      fst (GetURL d) = ('''', Some ''IP address is not set'')) \<and>
   (snd (fst (GetURL d)) = None \<longleftrightarrow> IPAddress (Base d) \<noteq> '''')"
  by (simp add: GetURL_def GetIP_def)

text \<open>The theorem at work: the address 10.0.0.5, and a new driver without address.\<close>

theorem GetURL_result_witness:
  "fst (GetURL ((NewDriver ''rack1'' ''/store'')
                  \<lparr>Base := (Base (NewDriver ''rack1'' ''/store''))\<lparr>IPAddress := ''10.0.0.5''\<rparr>\<rparr>))
     = (''tcp://10.0.0.5:2376'', None) \<and>
   fst (GetURL (NewDriver ''rack1'' ''/store'')) = ('''', Some ''IP address is not set'')"
  using GetURL_result [of "(NewDriver ''rack1'' ''/store'')
                  \<lparr>Base := (Base (NewDriver ''rack1'' ''/store''))\<lparr>IPAddress := ''10.0.0.5''\<rparr>\<rparr>"]
    GetURL_result [of "NewDriver ''rack1'' ''/store''"]
  by (simp add: NewDriver_def)

subsection \<open>C8: the address is only read\<close>

text \<open>
  Claim C8. Once the driver's IP address is set, none of \<^verbatim>\<open>GetIP\<close>, \<^verbatim>\<open>GetURL\<close>,
  \<^verbatim>\<open>GetSSHHostname\<close>, \<^verbatim>\<open>GetState\<close>, \<^verbatim>\<open>Start\<close>, \<^verbatim>\<open>Stop\<close>, \<^verbatim>\<open>Restart\<close>, \<^verbatim>\<open>Kill\<close> and
  \<^verbatim>\<open>Remove\<close> changes it: the driver each of them leaves behind carries the same
  address.
\<close>

theorem lifecycle_keeps_IPAddress:
  "IPAddress (Base d) \<noteq> '''' \<Longrightarrow>
     IPAddress (Base (snd (GetIP d))) = IPAddress (Base d) \<and>
     IPAddress (Base (snd (GetURL d))) = IPAddress (Base d) \<and>
     IPAddress (Base (snd (GetSSHHostname d))) = IPAddress (Base d) \<and>
     IPAddress (Base (snd (GetState d))) = IPAddress (Base d) \<and>
     IPAddress (Base (snd (Start d))) = IPAddress (Base d) \<and>
     IPAddress (Base (snd (Stop d))) = IPAddress (Base d) \<and>
     IPAddress (Base (snd (Restart d))) = IPAddress (Base d) \<and>
     IPAddress (Base (snd (Kill d))) = IPAddress (Base d) \<and>
     IPAddress (Base (snd (Remove d))) = IPAddress (Base d)"
  by (simp add: GetIP_def GetURL_def GetSSHHostname_def GetState_def Start_def Stop_def
      Restart_def Kill_def Remove_def)

text \<open>The theorem at work on a driver with the address 10.0.0.9.\<close>

theorem lifecycle_keeps_IPAddress_witness:
  "IPAddress (Base (snd (GetIP stale_driver))) = ''10.0.0.9'' \<and>
   IPAddress (Base (snd (GetURL stale_driver))) = ''10.0.0.9'' \<and>
   IPAddress (Base (snd (GetSSHHostname stale_driver))) = ''10.0.0.9'' \<and>
   IPAddress (Base (snd (GetState stale_driver))) = ''10.0.0.9'' \<and>
   IPAddress (Base (snd (Start stale_driver))) = ''10.0.0.9'' \<and>
   IPAddress (Base (snd (Stop stale_driver))) = ''10.0.0.9'' \<and>
   IPAddress (Base (snd (Restart stale_driver))) = ''10.0.0.9'' \<and>
   IPAddress (Base (snd (Kill stale_driver))) = ''10.0.0.9'' \<and>
   IPAddress (Base (snd (Remove stale_driver))) = ''10.0.0.9''"
proof -
  have ip: "IPAddress (Base stale_driver) = ''10.0.0.9''"
    by (simp add: stale_driver_def)
  then have "IPAddress (Base stale_driver) \<noteq> ''''" by simp
  from lifecycle_keeps_IPAddress [OF this] ip show ?thesis by simp
qed

subsection \<open>C9: the lifecycle operations are stubs\<close>

text \<open>
  Claim C9. For every driver, \<^verbatim>\<open>Start\<close>, \<^verbatim>\<open>Stop\<close>, \<^verbatim>\<open>Restart\<close>, \<^verbatim>\<open>Kill\<close> and
  \<^verbatim>\<open>Remove\<close> return nil, and \<^verbatim>\<open>GetState\<close> returns the state \<^verbatim>\<open>Running\<close> and nil.
\<close>

theorem lifecycle_stubs:
  "fst (Start d) = None \<and> fst (Stop d) = None \<and> fst (Restart d) = None \<and>
   fst (Kill d) = None \<and> fst (Remove d) = None \<and> fst (GetState d) = (Running, None)"
  by (simp add: Start_def Stop_def Restart_def Kill_def Remove_def GetState_def)

subsection \<open>C10: a missing node identifier leaves the driver half configured\<close>

text \<open>
  Claim C10. When \<^verbatim>\<open>SetConfigFromFlags\<close> returns an error, it is the error of the
  missing node identifier, and the driver is partially updated: the endpoint has
  been taken from the flags and the node identifier is the empty string, and
  nothing else has changed, so SSH user, SSH password, SSH port and transport are
  what they were before.
\<close>

theorem SetConfigFromFlags_partial_update:
  "SetConfigFromFlags flags d = (Some e, d') \<Longrightarrow>
     e = ''rackhd driver requires the --rackhd-node-id option'' \<and>
     String_flag flags ''rackhd-node-id'' = '''' \<and>
     d' = d\<lparr>Endpoint := String_flag flags ''rackhd-endpoint'', NodeID := ''''\<rparr> \<and>
     Endpoint d' = String_flag flags ''rackhd-endpoint'' \<and>
     NodeID d' = '''' \<and>
     SSHUser d' = SSHUser d \<and>
     SSHPassword d' = SSHPassword d \<and>
     SSHPort d' = SSHPort d \<and>
     Transport d' = Transport d"
  by (auto simp: SetConfigFromFlags_def Let_def split: if_splits)

text \<open>
  The theorem at work: no node identifier among the flags, on a new driver. The
  endpoint is the flag's, the transport is still the default and not the flag's.
\<close>

theorem SetConfigFromFlags_partial_update_witness:
  "fst (SetConfigFromFlags flags_no_node (NewDriver ''rack1'' ''/store''))
     = Some ''rackhd driver requires the --rackhd-node-id option'' \<and>
   Endpoint (snd (SetConfigFromFlags flags_no_node (NewDriver ''rack1'' ''/store'')))
     = ''rackhd.local:9090'' \<and>
   NodeID (snd (SetConfigFromFlags flags_no_node (NewDriver ''rack1'' ''/store''))) = '''' \<and>
   SSHUser (snd (SetConfigFromFlags flags_no_node (NewDriver ''rack1'' ''/store''))) = '''' \<and>
   SSHPassword (snd (SetConfigFromFlags flags_no_node (NewDriver ''rack1'' ''/store''))) = ''root'' \<and>
   SSHPort (snd (SetConfigFromFlags flags_no_node (NewDriver ''rack1'' ''/store''))) = 0 \<and>
   Transport (snd (SetConfigFromFlags flags_no_node (NewDriver ''rack1'' ''/store''))) = ''http''"
proof -
  let ?r = "SetConfigFromFlags flags_no_node (NewDriver ''rack1'' ''/store'')"
  have e: "fst ?r = Some ''rackhd driver requires the --rackhd-node-id option''"
    by (simp add: SetConfigFromFlags_def flags_no_node_def Let_def)
  then have "?r = (Some ''rackhd driver requires the --rackhd-node-id option'', snd ?r)"
    by (metis prod.collapse)
  note th = SetConfigFromFlags_partial_update [OF this]
  have f: "String_flag flags_no_node ''rackhd-endpoint'' = ''rackhd.local:9090''"
    by (simp add: flags_no_node_def)
  have n: "SSHUser (NewDriver ''rack1'' ''/store'') = ''''"
    "SSHPassword (NewDriver ''rack1'' ''/store'') = ''root''"
    "SSHPort (NewDriver ''rack1'' ''/store'') = 0"
    "Transport (NewDriver ''rack1'' ''/store'') = ''http''"
    by (simp_all add: NewDriver_def defaultTransport_def defaultSSHPassword_def)
  from th e f n show ?thesis by simp
qed

end
